theory Spec2Isabelle
  imports Main "HOL-Library.Sublist" "HOL-Library.Multiset"
begin

section \<open>Go values and the library functions the client calls\<close>

text \<open>
  A Go \<open>string\<close> and a \<open>[]byte\<close> are both sequences of bytes; they are modelled as
  \<open>string\<close> (a list of 8-bit characters).
\<close>

type_synonym bytes = string

subsection \<open>strconv.Itoa on a non-negative index\<close>

definition digit :: "nat \<Rightarrow> char" where
  "digit d = ''0123456789'' ! d"

function itoa :: "nat \<Rightarrow> string" where
  "itoa n = (if n < 10 then [digit n] else itoa (n div 10) @ [digit (n mod 10)])"
  by pat_completeness auto
termination
  by (relation "measure id") auto

declare itoa.simps [simp del]

subsection \<open>io.Reader values and the store they live in\<close>

text \<open>
  An \<open>io.Reader\<close> is a reference to a mutable object: reading consumes it. The store maps
  an address to the state of the reader living there: \<open>Reader bs\<close> still has the bytes
  \<open>bs\<close> to deliver and then reports EOF; \<open>BrokenReader e\<close> fails with the error \<open>e\<close>
  when it is read. A \<open>Body\<close> field holds \<open>None\<close> for Go's nil interface and \<open>Some a\<close>
  for the reader at address \<open>a\<close>; two uploads may hold the same address.
\<close>

datatype reader = Reader bytes | BrokenReader string

type_synonym store = "reader list"

text \<open>graphql/upload.go: \<open>type Upload struct { FileName string; Body io.Reader }\<close>\<close>

record Upload =
  FileName :: string
  Body :: "nat option"

subsection \<open>reflect.Value\<close>

text \<open>
  The variables of a request are inspected through package \<open>reflect\<close>. A valid
  \<open>reflect.Value\<close> is modelled by its kind and what \<open>findFiles\<close> can reach from it:
  \<^item> \<open>VPtr None\<close> is a nil pointer, \<open>VPtr (Some v)\<close> a pointer whose \<open>Elem()\<close> is \<open>v\<close>;
  \<^item> \<open>VUpload u\<close> is a value whose type is \<open>Upload\<close>;
  \<^item> \<open>VStruct fs\<close> is any other struct, with its fields in declaration order; a field
    carries its Go name, the value of the \<open>json\<close> key of its struct tag (empty when the
    tag has none) and its value. All fields are exported, as the generated types' are;
  \<^item> \<open>VSeq xs\<close> is a slice or an array;
  \<^item> \<open>VOther\<close> is a value of any other kind (string, number, bool, map, interface, ...).
\<close>

datatype gvalue =
    VPtr "gvalue option"
  | VUpload Upload
  | VStruct "structField list"
  | VSeq "gvalue list"
  | VOther
and structField = StructField (Name: string) (Tag: string) (Val: gvalue)

section \<open>The file upload packer: findFiles\<close>

text \<open>
  \<open>type fileVariable struct { mapKey string; file Upload }\<close>; the field \<open>file\<close> is
  called \<open>upload\<close> here.
\<close>

record fileVariable =
  mapKey :: string
  upload :: Upload

text \<open>
  \<open>findFiles\<close> (lines 200-238). A pointer is followed once (a nil pointer has no files);
  a value of type \<open>Upload\<close> is collected under the key built so far; a struct is entered
  field by field, a slice or array element by element. \<open>inspect\<close> is the part of the body
  after the pointer has been followed: a pointer met there is of kind \<open>Ptr\<close>, which the
  \<open>switch\<close> has no case for. \<open>findFields\<close> and \<open>findElems\<close> are the two \<open>for\<close> loops.

  The name a field contributes to the key is its \<open>json\<close> tag value, whole, unless that is
  empty or \<open>-\<close>; then it is the Go field name.
\<close>

fun findFiles :: "string \<Rightarrow> gvalue \<Rightarrow> fileVariable list"
  and inspect :: "string \<Rightarrow> gvalue \<Rightarrow> fileVariable list"
  and findFields :: "string \<Rightarrow> structField list \<Rightarrow> fileVariable list"
  and findElems :: "string \<Rightarrow> nat \<Rightarrow> gvalue list \<Rightarrow> fileVariable list"
where
  "findFiles parentKey (VPtr None) = []"
| "findFiles parentKey (VPtr (Some v)) = inspect parentKey v"
| "findFiles parentKey (VUpload u) = inspect parentKey (VUpload u)"
| "findFiles parentKey (VStruct fs) = inspect parentKey (VStruct fs)"
| "findFiles parentKey (VSeq xs) = inspect parentKey (VSeq xs)"
| "findFiles parentKey VOther = inspect parentKey VOther"
| "inspect parentKey (VUpload u) = [\<lparr>mapKey = parentKey, upload = u\<rparr>]"
| "inspect parentKey (VStruct fs) = findFields parentKey fs"
| "inspect parentKey (VSeq xs) = findElems parentKey 0 xs"
| "inspect parentKey (VPtr p) = []"
| "inspect parentKey VOther = []"
| "findFields parentKey [] = []"
| "findFields parentKey (StructField name jsonTag v # fs) =
     findFiles (parentKey @ ''.'' @ (if jsonTag \<noteq> [] \<and> jsonTag \<noteq> ''-'' then jsonTag else name)) v
       @ findFields parentKey fs"
| "findElems parentKey i [] = []"
| "findElems parentKey i (x # xs) =
     findFiles (parentKey @ ''.'' @ itoa i) x @ findElems parentKey (Suc i) xs"

text \<open>
  The call site is \<open>findFiles("variables", reflect.ValueOf(req.Variables))\<close>. For a nil
  \<open>Variables\<close> (\<open>None\<close>), \<open>reflect.ValueOf\<close> returns the zero \<open>Value\<close>; its \<open>Kind()\<close> is
  \<open>Invalid\<close>, so the pointer test is skipped, and \<open>v.Type()\<close> at line 210 panics. Only the
  outermost call can meet the zero \<open>Value\<close>: fields, elements and pointees are valid.
\<close>

datatype gqlerror = GqlError (Message: string)

datatype error =
    Panic string
  | ErrCreatingRequest string
  | ErrReadingFile string
  | ErrUrlParse string
  | ErrMutationsNotSupported
  | ErrMarshal string
  | ErrNewRequest string
  | ErrDo string
  | ErrReturned string bytes
  | ErrDecode string
  | ErrGraphQL "gqlerror list"
  | ErrJson string
  | ErrMissingTypename string
  | ErrUnexpectedType string string

definition findFiles_ValueOf :: "string \<Rightarrow> gvalue option \<Rightarrow> error + fileVariable list" where
  "findFiles_ValueOf parentKey x =
     (case x of
        None \<Rightarrow> Inl (Panic ''reflect: call of reflect.Value.Type on zero Value'')
      | Some v \<Rightarrow> Inr (findFiles parentKey v))"


section \<open>The file upload packer: createUploadFileRequest\<close>

subsection \<open>Reading and re-buffering a body\<close>

text \<open>
  \<open>io.ReadAll(r)\<close> returns everything the reader still has and leaves it exhausted. On a
  nil \<open>io.Reader\<close> the call of \<open>r.Read\<close> panics. Every call site wraps a read error as
  \<open>error reading file: %w\<close>; \<open>readFile\<close> is \<open>io.ReadAll\<close> with that wrapping. An address
  outside the store stands for no reader at all and is treated as the nil interface.
\<close>

definition readFile :: "store \<Rightarrow> nat option \<Rightarrow> error + (bytes \<times> store)" where
  "readFile h b =
     (case b of
        None \<Rightarrow> Inl (Panic ''invalid memory address or nil pointer dereference'')
      | Some a \<Rightarrow>
          if a < length h then
            (case h ! a of
               Reader bs \<Rightarrow> Inr (bs, h[a := Reader []])
             | BrokenReader e \<Rightarrow> Inl (ErrReadingFile e))
          else Inl (Panic ''invalid memory address or nil pointer dereference''))"

text \<open>\<open>bytes.NewReader(b)\<close> allocates a fresh reader over \<open>b\<close>.\<close>

definition NewReader :: "store \<Rightarrow> bytes \<Rightarrow> store \<times> nat" where
  "NewReader h bs = (h @ [Reader bs], length h)"

definition setBody :: "fileVariable \<Rightarrow> nat \<Rightarrow> fileVariable" where
  "setBody f a = f\<lparr>upload := (upload f)\<lparr>Body := Some a\<rparr>\<rparr>"

subsection \<open>Grouping the files (lines 259-286)\<close>

text \<open>
  \<open>filesGroup\<close> is a list of groups of \<open>*fileVariable\<close>. Every pointer in it and in
  \<open>fileVariables\<close> comes from its own \<open>&fileVariable{...}\<close> in \<open>findFiles\<close>, so no two of them
  are the same object and an assignment to \<open>file.file.Body\<close> is seen only through that one
  entry. The model therefore keeps the structs by value and writes an updated struct back
  where its pointer stands. The readers behind the \<open>Body\<close> fields, which the caller
  supplies, may be shared; they live in the store.

  \<open>scanGroups\<close> is the inner loop over \<open>filesGroup\<close> for one \<open>file\<close>: \<open>passed\<close> holds
  the groups already visited, the last argument the groups still to visit. It returns the
  store, the groups, the file (its \<open>Body\<close> possibly replaced) and \<open>foundDuplicated\<close>.
  A group is compared only when the file name of its first file equals that of \<open>file\<close>;
  then both bodies are read in full, replaced by fresh readers over what was read, and the
  bytes compared.
\<close>

fun scanGroups ::
  "store \<Rightarrow> fileVariable \<Rightarrow> fileVariable list list \<Rightarrow> fileVariable list list
     \<Rightarrow> error + (store \<times> fileVariable list list \<times> fileVariable \<times> bool)"
where
  "scanGroups h f passed [] = Inr (h, passed, f, False)"
| "scanGroups h f passed ([] # gs) = Inl (Panic ''index out of range [0] with length 0'')"
| "scanGroups h f passed ((file2 # others) # gs) =
     (if FileName (upload f) = FileName (upload file2) then
        (case readFile h (Body (upload f)) of
           Inl e \<Rightarrow> Inl e
         | Inr (f1, h1) \<Rightarrow>
            (case readFile h1 (Body (upload file2)) of
               Inl e \<Rightarrow> Inl e
             | Inr (f2, h2) \<Rightarrow>
                (case NewReader h2 f1 of (h3, a1) \<Rightarrow>
                 (case NewReader h3 f2 of (h4, a2) \<Rightarrow>
                    if f1 = f2
                    then Inr (h4, passed @ [(setBody file2 a2 # others) @ [setBody f a1]] @ gs,
                              setBody f a1, True)
                    else scanGroups h4 (setBody f a1) (passed @ [setBody file2 a2 # others]) gs))))
      else scanGroups h f (passed @ [file2 # others]) gs)"

text \<open>The outer loop over \<open>fileVariables\<close>.\<close>

fun groupFiles ::
  "store \<Rightarrow> fileVariable list list \<Rightarrow> fileVariable list \<Rightarrow> error + (fileVariable list list \<times> store)"
where
  "groupFiles h filesGroup [] = Inr (filesGroup, h)"
| "groupFiles h filesGroup (f # fs) =
     (case scanGroups h f [] filesGroup of
        Inl e \<Rightarrow> Inl e
      | Inr (h', groups', f', foundDuplicated) \<Rightarrow>
          groupFiles h' (if foundDuplicated then groups' else groups' @ [[f']]) fs)"

subsection \<open>The map field (lines 287-293, 328-334)\<close>

fun Join :: "string list \<Rightarrow> string \<Rightarrow> string" where
  "Join [] sep = []"
| "Join [x] sep = x"
| "Join (x # y # ys) sep = x @ sep @ Join (y # ys) sep"

definition quoted :: "string \<Rightarrow> string" where
  "quoted s = [CHR 0x22] @ s @ [CHR 0x22]"

definition joinFilesMapKey :: "fileVariable list \<Rightarrow> string" where
  "joinFilesMapKey files = Join (map (\<lambda>v. quoted (mapKey v)) files) '',''"

definition mapEntry :: "nat \<Rightarrow> fileVariable list \<Rightarrow> string" where
  "mapEntry i files = quoted (itoa i) @ '':['' @ joinFilesMapKey files @ '']''"

definition mapData :: "fileVariable list list \<Rightarrow> string" where
  "mapData filesGroup =
     (if length filesGroup > 0
      then ''{'' @ Join (map (\<lambda>(i, files). mapEntry i files) (enumerate 0 filesGroup)) '','' @ ''}''
      else [])"


section \<open>The transport client\<close>

subsection \<open>strings.TrimSpace and strings.HasPrefix\<close>

text \<open>
  \<open>strings.TrimSpace\<close> removes the leading and the trailing white space, as Unicode
  defines it (\<open>unicode.IsSpace\<close>): U+0009-U+000D, U+0020, U+0085, U+00A0, U+1680,
  U+2000-U+200A, U+2028, U+2029, U+202F, U+205F and U+3000. A Go string is UTF-8; a byte
  sequence that does not decode to one of these code points is not white space.
  \<open>unicodeSpaces\<close> lists their UTF-8 encodings.
\<close>

definition unicodeSpaces :: "string list" where
  "unicodeSpaces =
     [[CHR 0x09], [CHR 0x0A], [CHR 0x0B], [CHR 0x0C], [CHR 0x0D], [CHR 0x20],
      [CHR 0xC2, CHR 0x85], [CHR 0xC2, CHR 0xA0], [CHR 0xE1, CHR 0x9A, CHR 0x80],
      [CHR 0xE2, CHR 0x80, CHR 0x80], [CHR 0xE2, CHR 0x80, CHR 0x81],
      [CHR 0xE2, CHR 0x80, CHR 0x82], [CHR 0xE2, CHR 0x80, CHR 0x83],
      [CHR 0xE2, CHR 0x80, CHR 0x84], [CHR 0xE2, CHR 0x80, CHR 0x85],
      [CHR 0xE2, CHR 0x80, CHR 0x86], [CHR 0xE2, CHR 0x80, CHR 0x87],
      [CHR 0xE2, CHR 0x80, CHR 0x88], [CHR 0xE2, CHR 0x80, CHR 0x89],
      [CHR 0xE2, CHR 0x80, CHR 0x8A], [CHR 0xE2, CHR 0x80, CHR 0xA8],
      [CHR 0xE2, CHR 0x80, CHR 0xA9], [CHR 0xE2, CHR 0x80, CHR 0xAF],
      [CHR 0xE2, CHR 0x81, CHR 0x9F], [CHR 0xE3, CHR 0x80, CHR 0x80]]"

text \<open>
  \<open>spaceWidth ps s\<close> is the number of bytes of the white-space rune \<open>s\<close> starts with
  (one of the encodings \<open>ps\<close>), or 0 when it starts with none.
\<close>

definition spaceWidth :: "string list \<Rightarrow> string \<Rightarrow> nat" where
  "spaceWidth ps s = (case find (\<lambda>p. prefix p s) ps of None \<Rightarrow> 0 | Some p \<Rightarrow> length p)"

lemma spaceWidth_le: "spaceWidth ps s \<le> length s"
  by (auto simp: spaceWidth_def find_Some_iff prefix_def split: option.splits)

function trimRunes :: "string list \<Rightarrow> string \<Rightarrow> string" where
  "trimRunes ps s = (if spaceWidth ps s = 0 then s else trimRunes ps (drop (spaceWidth ps s) s))"
  by pat_completeness auto
termination
proof (relation "measure (\<lambda>(ps, s). length s)")
  show "wf (measure (\<lambda>(ps, s). length s))" by simp
next
  fix ps :: "string list" and s :: string
  assume "spaceWidth ps s \<noteq> 0"
  moreover have "spaceWidth ps s \<le> length s" by (rule spaceWidth_le)
  ultimately show "((ps, drop (spaceWidth ps s) s), (ps, s)) \<in> measure (\<lambda>(ps, s). length s)"
    by simp
qed

declare trimRunes.simps [simp del]

text \<open>
  The trailing white space is found by decoding runes backwards from the end of the
  string; the bytes of a rune then appear in reverse order.
\<close>

definition TrimSpace :: "string \<Rightarrow> string" where
  "TrimSpace s = rev (trimRunes (map rev unicodeSpaces) (rev (trimRunes unicodeSpaces s)))"

definition HasPrefix :: "string \<Rightarrow> string \<Rightarrow> bool" where
  "HasPrefix s p = prefix p s"

subsection \<open>Requests, responses and the client\<close>

text \<open>
  \<open>Request\<close> (lines 114-127). \<open>Variables\<close> is an \<open>interface{}\<close>: \<open>None\<close> is nil, \<open>Some v\<close>
  holds the value \<open>v\<close>.
\<close>

record Request =
  Query :: string
  Variables :: "gvalue option"
  OpName :: string
  UploadFile :: bool

text \<open>
  \<open>Response\<close> (lines 138-142). \<open>Data\<close> is the value the caller prepared for the
  operation's result, of the operation's own type \<open>'d\<close>.
\<close>

record 'd Response =
  Data :: 'd
  Extensions :: "(string \<times> string) list"
  Errors :: "gqlerror list"

text \<open>
  A part of a multipart body: the parameters of its \<open>Content-Disposition: form-data\<close>
  header, its \<open>Content-Type\<close> header if it has one, and its content.
\<close>

datatype part = Part (disposition: "(string \<times> string) list") (contentType: "string option") (content: bytes)

datatype requestBody = NoBody | BytesBody bytes | MultipartBody "part list"

record httpRequest =
  Method :: string
  URL :: string
  Header :: "string \<rightharpoonup> string"
  ReqBody :: requestBody

text \<open>
  The body of a response delivers \<open>delivered\<close> and then ends, with EOF when \<open>readError\<close>
  is \<open>None\<close> and with that error otherwise.
\<close>

record responseBody =
  delivered :: bytes
  readError :: "string option"

record httpResponse =
  StatusCode :: int
  Status :: string
  RespBody :: responseBody

text \<open>
  \<open>client\<close> (lines 48-52). \<open>httpClient\<close> is the \<open>Doer\<close>: its \<open>Do\<close> returns a response or
  an error.
\<close>

text \<open>The field \<open>method\<close> is written \<open>method'\<close>.\<close>

record client =
  httpClient :: "httpRequest \<Rightarrow> string + httpResponse"
  endpoint :: string
  method' :: string

text \<open>\<open>url.URL\<close>: \<open>RawQuery\<close> and everything else.\<close>

record url =
  RawQuery :: string
  urlRest :: string

text \<open>
  The functions of Go's standard library that the client calls and that are not modelled
  above are parameters of the model:
  \<^item> \<open>url_Parse\<close>, \<open>url_ParseQuery\<close> (\<open>URL.Query()\<close>), \<open>Values_Encode\<close>, \<open>URL_String\<close> of
    \<open>net/url\<close>; a \<open>url.Values\<close> is a map from a key to its values;
  \<^item> \<open>json_Marshal_Request\<close> and \<open>json_Marshal\<close>: \<open>json.Marshal\<close> of a \<open>*Request\<close> and of
    the variables;
  \<^item> \<open>NewRequest_error\<close>: the error \<open>http.NewRequest\<close> reports for a method and a URL, if
    any;
  \<^item> \<open>Decode\<close>: \<open>json.NewDecoder(body).Decode(resp)\<close>, which fills the response in place
    and may fail (then what it had already filled stays filled);
  \<^item> \<open>DetectContentType\<close> of \<open>net/http\<close> and the boundary \<open>multipart.NewWriter\<close> draws.
\<close>

record 'd lib =
  url_Parse :: "string \<Rightarrow> string + url"
  url_ParseQuery :: "string \<Rightarrow> (string \<rightharpoonup> string list)"
  Values_Encode :: "(string \<rightharpoonup> string list) \<Rightarrow> string"
  URL_String :: "url \<Rightarrow> string"
  json_Marshal_Request :: "Request \<Rightarrow> string + bytes"
  json_Marshal :: "gvalue \<Rightarrow> string + bytes"
  NewRequest_error :: "string \<Rightarrow> string \<Rightarrow> string option"
  Decode :: "responseBody \<Rightarrow> 'd Response \<Rightarrow> 'd Response \<times> string option"
  DetectContentType :: "bytes \<Rightarrow> string"
  boundary :: string

definition http_NewRequest :: "'d lib \<Rightarrow> string \<Rightarrow> string \<Rightarrow> requestBody \<Rightarrow> string + httpRequest" where
  "http_NewRequest lib m u b =
     (case NewRequest_error lib m u of
        Some e \<Rightarrow> Inl e
      | None \<Rightarrow> Inr \<lparr>Method = m, URL = u, Header = Map.empty, ReqBody = b\<rparr>)"

definition Header_Set :: "httpRequest \<Rightarrow> string \<Rightarrow> string \<Rightarrow> httpRequest" where
  "Header_Set r k v = r\<lparr>Header := (Header r)(k \<mapsto> v)\<rparr>"

definition Values_Set :: "(string \<rightharpoonup> string list) \<Rightarrow> string \<Rightarrow> string \<Rightarrow> (string \<rightharpoonup> string list)" where
  "Values_Set vs k v = vs(k \<mapsto> [v])"


subsection \<open>createGetRequest (lines 353-397)\<close>

definition createGetRequest :: "'d lib \<Rightarrow> client \<Rightarrow> Request \<Rightarrow> error + httpRequest" where
  "createGetRequest lib c req =
     (case url_Parse lib (endpoint c) of
        Inl e \<Rightarrow> Inl (ErrUrlParse e)
      | Inr parsedURL \<Rightarrow>
          let queryParams = url_ParseQuery lib (RawQuery parsedURL) in
          if Query req \<noteq> [] \<and> HasPrefix (TrimSpace (Query req)) ''mutation''
          then Inl ErrMutationsNotSupported
          else
            let (queryParams1, queryUpdated1) =
                  (if Query req \<noteq> [] then (Values_Set queryParams ''query'' (Query req), True)
                   else (queryParams, False));
                (queryParams2, queryUpdated2) =
                  (if OpName req \<noteq> []
                   then (Values_Set queryParams1 ''operationName'' (OpName req), True)
                   else (queryParams1, queryUpdated1))
            in
              (case (case Variables req of
                       None \<Rightarrow> Inr (queryParams2, queryUpdated2)
                     | Some v \<Rightarrow>
                         (case json_Marshal lib v of
                            Inl e \<Rightarrow> Inl (ErrMarshal e)
                          | Inr variables \<Rightarrow>
                              Inr (Values_Set queryParams2 ''variables'' variables, True))) of
                 Inl e \<Rightarrow> Inl e
               | Inr (queryParams3, queryUpdated3) \<Rightarrow>
                   let parsedURL' =
                         (if queryUpdated3
                          then parsedURL\<lparr>RawQuery := Values_Encode lib queryParams3\<rparr>
                          else parsedURL)
                   in (case http_NewRequest lib (method' c) (URL_String lib parsedURL') NoBody of
                         Inl e \<Rightarrow> Inl (ErrNewRequest e)
                       | Inr httpReq \<Rightarrow> Inr httpReq)))"

subsection \<open>createPostRequest (lines 336-351)\<close>

definition createPostRequest :: "'d lib \<Rightarrow> client \<Rightarrow> Request \<Rightarrow> error + httpRequest" where
  "createPostRequest lib c req =
     (case json_Marshal_Request lib req of
        Inl e \<Rightarrow> Inl (ErrMarshal e)
      | Inr body \<Rightarrow>
          (case http_NewRequest lib (method' c) (endpoint c) (BytesBody body) of
             Inl e \<Rightarrow> Inl (ErrNewRequest e)
           | Inr httpReq \<Rightarrow> Inr httpReq))"

subsection \<open>createUploadFileRequest (lines 240-326)\<close>

text \<open>
  \<open>bodyWriter.WriteField(name, value)\<close> adds a part with the disposition parameter
  \<open>name\<close>, no content type and the value as content. The writer writes into a
  \<open>bytes.Buffer\<close>, whose \<open>Write\<close> never reports an error, so \<open>WriteField\<close>, \<open>CreatePart\<close> and
  \<open>Write\<close> succeed.
\<close>

definition formField :: "string \<Rightarrow> string \<Rightarrow> part" where
  "formField name v = Part [(''name'', name)] None v"

text \<open>
  The loop over \<open>filesGroup\<close> that writes one part per group (lines 300-321): the part
  carries the index as \<open>name\<close>, the trimmed file name of the group's first file as
  \<open>filename\<close> when that is not empty, and what the first file's body still delivers.
\<close>

fun writeFiles :: "'d lib \<Rightarrow> store \<Rightarrow> nat \<Rightarrow> fileVariable list list \<Rightarrow> error + (part list \<times> store)" where
  "writeFiles lib h i [] = Inr ([], h)"
| "writeFiles lib h i ([] # gs) = Inl (Panic ''index out of range [0] with length 0'')"
| "writeFiles lib h i ((f0 # others) # gs) =
     (let fileName = TrimSpace (FileName (upload f0));
          dispParams = [(''name'', itoa i)] @ (if fileName \<noteq> [] then [(''filename'', fileName)] else [])
      in case readFile h (Body (upload f0)) of
           Inl e \<Rightarrow> Inl e
         | Inr (b, h') \<Rightarrow>
            (case writeFiles lib h' (Suc i) gs of
               Inl e \<Rightarrow> Inl e
             | Inr (ps, h'') \<Rightarrow> Inr (Part dispParams (Some (DetectContentType lib b)) b # ps, h'')))"

text \<open>
  The error of \<open>json.Marshal(req)\<close> is discarded (line 250); the bytes are then nil and the
  \<open>operations\<close> field is empty.
\<close>

definition createUploadFileRequest ::
  "'d lib \<Rightarrow> client \<Rightarrow> store \<Rightarrow> Request \<Rightarrow> error + (httpRequest \<times> store)"
where
  "createUploadFileRequest lib c h req =
     (case http_NewRequest lib ''POST'' (endpoint c) NoBody of
        Inl e \<Rightarrow> Inl (ErrCreatingRequest e)
      | Inr httpRequest \<Rightarrow>
          let requestBody = (case json_Marshal_Request lib req of Inl e \<Rightarrow> [] | Inr b \<Rightarrow> b) in
          (case findFiles_ValueOf ''variables'' (Variables req) of
             Inl e \<Rightarrow> Inl e
           | Inr fileVariables \<Rightarrow>
              (case groupFiles h [] fileVariables of
                 Inl e \<Rightarrow> Inl e
               | Inr (filesGroup, h1) \<Rightarrow>
                  (case writeFiles lib h1 0 filesGroup of
                     Inl e \<Rightarrow> Inl e
                   | Inr (fileParts, h2) \<Rightarrow>
                       Inr (Header_Set
                              (httpRequest\<lparr>ReqBody :=
                                 MultipartBody
                                   ([formField ''operations'' requestBody,
                                     formField ''map'' (mapData filesGroup)] @ fileParts)\<rparr>)
                              ''Content-Type'' (''multipart/form-data; boundary='' @ boundary lib),
                            h2)))))"

subsection \<open>MakeRequest (lines 144-192)\<close>

text \<open>
  What a call of \<open>MakeRequest\<close> leaves behind: the error it returns (\<open>None\<close> for nil), the
  response object as the call left it, and the requests it handed to \<open>httpClient.Do\<close>, in
  order. A panic is reported as the error \<open>Panic\<close>. The context is attached to the request
  and only \<open>Do\<close> looks at it; it is not modelled apart from \<open>Do\<close>'s own answer.
\<close>

record 'd outcome =
  err :: "error option"
  resp :: "'d Response"
  sent :: "httpRequest list"

text \<open>
  Lines 145-163: the request is built by one of the three builders, and its
  \<open>Content-Type\<close> is set to JSON unless this is an upload on a client that does not use
  GET.
\<close>

definition buildRequest :: "'d lib \<Rightarrow> client \<Rightarrow> store \<Rightarrow> Request \<Rightarrow> error + httpRequest" where
  "buildRequest lib c h req =
     (case (if method' c = ''GET'' then createGetRequest lib c req
            else if UploadFile req then
              (case createUploadFileRequest lib c h req of
                 Inl e \<Rightarrow> Inl e
               | Inr (httpReq, h') \<Rightarrow> Inr httpReq)
            else createPostRequest lib c req) of
        Inl e \<Rightarrow> Inl e
      | Inr httpReq \<Rightarrow>
          if \<not> UploadFile req \<or> method' c = ''GET''
          then Inr (Header_Set httpReq ''Content-Type'' ''application/json'')
          else Inr httpReq)"

text \<open>
  Lines 169-191: the request is handed to \<open>Do\<close>; a status other than 200 is reported
  with the status line and the body (or a placeholder when the body cannot be read);
  otherwise the body is decoded into the response object, and a non-empty \<open>Errors\<close> is
  returned as the error.
\<close>

definition MakeRequest :: "'d lib \<Rightarrow> client \<Rightarrow> store \<Rightarrow> Request \<Rightarrow> 'd Response \<Rightarrow> 'd outcome" where
  "MakeRequest lib c h req r =
     (case buildRequest lib c h req of
        Inl e \<Rightarrow> \<lparr>err = Some e, resp = r, sent = []\<rparr>
      | Inr httpReq \<Rightarrow>
          (case httpClient c httpReq of
             Inl e \<Rightarrow> \<lparr>err = Some (ErrDo e), resp = r, sent = [httpReq]\<rparr>
           | Inr httpResp \<Rightarrow>
               if StatusCode httpResp \<noteq> 200 then
                 let respBody =
                       (case readError (RespBody httpResp) of
                          None \<Rightarrow> delivered (RespBody httpResp)
                        | Some e \<Rightarrow> ''<unreadable: '' @ e @ ''>'')
                 in \<lparr>err = Some (ErrReturned (Status httpResp) respBody), resp = r,
                     sent = [httpReq]\<rparr>
               else
                 (case Decode lib (RespBody httpResp) r of
                    (r', Some e) \<Rightarrow> \<lparr>err = Some (ErrDecode e), resp = r', sent = [httpReq]\<rparr>
                  | (r', None) \<Rightarrow>
                      if length (Errors r') > 0
                      then \<lparr>err = Some (ErrGraphQL (Errors r')), resp = r', sent = [httpReq]\<rparr>
                      else \<lparr>err = None, resp = r', sent = [httpReq]\<rparr>)))"

section \<open>Decoding a polymorphic field: unmarshal\_helper.go.tmpl\<close>

subsection \<open>JSON values and json.Unmarshal into the type-name struct\<close>

text \<open>
  The wire value \<open>m\<close> is a \<open>json.RawMessage\<close> that the decoder of the enclosing object
  cut out of a valid document: the text of one JSON value, without white space around it.
  It is modelled by the value it denotes; an object keeps its members in the order of the
  text, duplicates included. \<open>string(m) == "null"\<close> holds exactly for \<open>JNull\<close>.
\<close>

datatype json =
    JNull
  | JBool bool
  | JNumber string
  | JString string
  | JArray "json list"
  | JObject "(string \<times> json) list"

text \<open>
  \<open>json.Unmarshal\<close> matches an object key to a struct field by the field's JSON name,
  exactly or ignoring the case of ASCII letters. The only field here is
  \<open>TypeName string `json:"__typename"`\<close>.
\<close>

definition asciiUpper :: "char \<Rightarrow> char" where
  "asciiUpper ch =
     (case map_of (zip ''abcdefghijklmnopqrstuvwxyz'' ''ABCDEFGHIJKLMNOPQRSTUVWXYZ'') ch of
        None \<Rightarrow> ch
      | Some u \<Rightarrow> u)"

definition isTypenameKey :: "string \<Rightarrow> bool" where
  "isTypenameKey k = (map asciiUpper k = ''__TYPENAME'')"

text \<open>
  The members of the object are decoded in order. A member for the field sets it when its
  value is a string, leaves it alone when the value is \<open>null\<close>, and otherwise records a
  type error and goes on; other members are skipped. \<open>typeNameMembers\<close> returns the field
  and whether a type error was recorded.
\<close>

fun typeNameMembers :: "(string \<times> json) list \<Rightarrow> string \<Rightarrow> bool \<Rightarrow> string \<times> bool" where
  "typeNameMembers [] tn bad = (tn, bad)"
| "typeNameMembers ((k, x) # kvs) tn bad =
     (if isTypenameKey k then
        (case x of
           JString s \<Rightarrow> typeNameMembers kvs s bad
         | JNull \<Rightarrow> typeNameMembers kvs tn bad
         | _ \<Rightarrow> typeNameMembers kvs tn True)
      else typeNameMembers kvs tn bad)"

text \<open>
  \<open>json.Unmarshal(m, &tn)\<close> for \<open>var tn struct { TypeName string `json:"__typename"` }\<close>,
  whose field starts empty: \<open>null\<close> decodes to the untouched struct, an object member by
  member, and any other value is a type error.
\<close>

definition unmarshalTypeName :: "json \<Rightarrow> error + string" where
  "unmarshalTypeName m =
     (case m of
        JNull \<Rightarrow> Inr []
      | JObject kvs \<Rightarrow>
          (case typeNameMembers kvs [] False of
             (tn, True) \<Rightarrow> Inl (ErrJson ''json: cannot unmarshal into Go struct field .__typename of type string'')
           | (tn, False) \<Rightarrow> Inr tn)
      | _ \<Rightarrow> Inl (ErrJson ''json: cannot unmarshal into Go value of type struct''))"

subsection \<open>The helper\<close>

text \<open>
  The template is instantiated for an interface or union type with its Go name, its
  GraphQL name and its implementations, each with a GraphQL name and a Go name.
\<close>

record implementation =
  ImplGraphQLName :: string
  ImplGoName :: string

record interfaceType =
  GoName :: string
  GraphQLName :: string
  Implementations :: "implementation list"

text \<open>
  The target \<open>*v\<close> is a value of the Go interface type: \<open>None\<close> is nil,
  \<open>Some (T, x)\<close> a pointer to a struct of the generated type named \<open>T\<close> with the content
  \<open>x\<close>. \<open>unmarshalNew T m\<close> stands for \<open>json.Unmarshal(m, new(T))\<close> on the generated type
  \<open>T\<close>, which is not part of the template: the content of the new struct afterwards and
  the error, if any.

  The helper (lines 4-33) returns at once on \<open>null\<close>; a failure of the first
  \<open>json.Unmarshal\<close> is returned as it is; the \<open>switch\<close> tries the implementations in their
  order, then the empty name, then the default.
\<close>

definition unmarshal_helper ::
  "interfaceType \<Rightarrow> (string \<Rightarrow> json \<Rightarrow> 's \<times> error option) \<Rightarrow> (string \<times> 's) option \<Rightarrow> json
     \<Rightarrow> (string \<times> 's) option \<times> error option"
where
  "unmarshal_helper t unmarshalNew v m =
     (if m = JNull then (v, None)
      else
        (case unmarshalTypeName m of
           Inl e \<Rightarrow> (v, Some e)
         | Inr tn \<Rightarrow>
            (case find (\<lambda>i. ImplGraphQLName i = tn) (Implementations t) of
               Some i \<Rightarrow>
                 (case unmarshalNew (ImplGoName i) m of
                    (x, e) \<Rightarrow> (Some (ImplGoName i, x), e))
             | None \<Rightarrow>
                 if tn = [] then (v, Some (ErrMissingTypename (GraphQLName t)))
                 else (v, Some (ErrUnexpectedType (GoName t) tn)))))"

section \<open>A generated input type: InputWithDefaults\<close>

text \<open>
  The snapshot declares
  \<^verbatim>\<open>type InputWithDefaults struct {
      Field         string `json:"field,omitempty"`
      NullableField string `json:"nullableField,omitempty"`
  }\<close>
  and \<open>__DefaultInputsInput\<close> with the one field \<open>Input InputWithDefaults `json:"input"`\<close>.
  Both fields are plain Go strings. \<open>json.Marshal\<close> writes a struct as an object with the
  fields in declaration order; a field tagged \<open>omitempty\<close> is left out when its value is
  empty, which for a string means length 0.
\<close>

record InputWithDefaults =
  Field :: string
  NullableField :: string

definition marshal_InputWithDefaults :: "InputWithDefaults \<Rightarrow> json" where
  "marshal_InputWithDefaults v =
     JObject
       ((if Field v = [] then [] else [(''field'', JString (Field v))]) @
        (if NullableField v = [] then [] else [(''nullableField'', JString (NullableField v))]))"

text \<open>The variables object of the operation, \<open>&__DefaultInputsInput{Input: input}\<close>.\<close>

definition marshal_DefaultInputsInput :: "InputWithDefaults \<Rightarrow> json" where
  "marshal_DefaultInputsInput input = JObject [(''input'', marshal_InputWithDefaults input)]"

text \<open>The member of a JSON object under a key, if it has one.\<close>

definition objectMember :: "json \<Rightarrow> string \<Rightarrow> json option" where
  "objectMember j k = (case j of JObject kvs \<Rightarrow> map_of kvs k | _ \<Rightarrow> None)"


section \<open>What the packer is given\<close>

text \<open>
  The content of a file is what its reader still delivers. \<open>readable h fs\<close> says that the
  files \<open>fs\<close> can be buffered independently: each body is a reader of the store that does
  not fail, and no two files share a reader.
\<close>

definition contentOf :: "store \<Rightarrow> fileVariable \<Rightarrow> bytes" where
  "contentOf h f =
     (case Body (upload f) of
        None \<Rightarrow> []
      | Some a \<Rightarrow> (case h ! a of Reader bs \<Rightarrow> bs | BrokenReader e \<Rightarrow> []))"



subsection \<open>Grouping by file name and content\<close>







text \<open>The part written for the group whose first file is \<open>f0\<close>, as the \<open>i\<close>-th group.\<close>

definition filePart :: "'d lib \<Rightarrow> store \<Rightarrow> nat \<Rightarrow> fileVariable \<Rightarrow> part" where
  "filePart lib h i f0 =
     Part ([(''name'', itoa i)] @
           (if TrimSpace (FileName (upload f0)) \<noteq> []
            then [(''filename'', TrimSpace (FileName (upload f0)))] else []))
          (Some (DetectContentType lib (contentOf h f0))) (contentOf h f0)"

section \<open>Example values\<close>

text \<open>
  The interface \<open>Node\<close> with the implementations \<open>User\<close> and \<open>Bot\<close>, and a stand-in for
  the generated decoders that keeps the wire value as the content of the new struct.
\<close>

definition nodeType :: interfaceType where
  "nodeType =
     \<lparr>GoName = ''QueryNode'', GraphQLName = ''Node'',
      Implementations =
        [\<lparr>ImplGraphQLName = ''User'', ImplGoName = ''QueryNodeUser''\<rparr>,
         \<lparr>ImplGraphQLName = ''Bot'', ImplGoName = ''QueryNodeBot''\<rparr>]\<rparr>"

definition keepWire :: "string \<Rightarrow> json \<Rightarrow> json \<times> error option" where
  "keepWire T m = (m, None)"

text \<open>
  An instance of the library parameters: a URL parser that rejects the control character
  DEL (as \<open>url.Parse\<close> does) and otherwise keeps the text, marshalers that always succeed,
  and a decoder that reports one GraphQL error for the body \<open>data+errors\<close> beside the data
  and none for any other body. \<open>answering m httpResp\<close> is a client with the method \<open>m\<close> whose
  \<open>Do\<close> answers every request with \<open>httpResp\<close>; \<open>answer code status body\<close> is a response
  whose body can be read.
\<close>

definition exampleLib :: "string lib" where
  "exampleLib =
     \<lparr>url_Parse = (\<lambda>s. if CHR 0x7F \<in> set s then Inl ''net/url: invalid control character in URL''
                          else Inr \<lparr>RawQuery = [], urlRest = s\<rparr>),
      url_ParseQuery = (\<lambda>q. Map.empty),
      Values_Encode = (\<lambda>vs. concat (map (\<lambda>k. case vs k of None \<Rightarrow> [] | Some xs \<Rightarrow> k @ ''='' @ concat xs @ ''&'')
                                        [''operationName'', ''query'', ''variables''])),
      URL_String = (\<lambda>u. urlRest u @ ''?'' @ RawQuery u),
      json_Marshal_Request = (\<lambda>req. Inr (''{query: '' @ Query req @ ''}'')),
      json_Marshal = (\<lambda>v. Inr ''{}''),
      NewRequest_error = (\<lambda>m u. None),
      Decode = (\<lambda>b r. if delivered b = ''data+errors''
                        then (r\<lparr>Data := ''data'', Errors := [GqlError ''boom'']\<rparr>, None)
                        else (r\<lparr>Data := delivered b\<rparr>, None)),
      DetectContentType = (\<lambda>b. ''text/plain; charset=utf-8''),
      boundary = ''boundary''\<rparr>"

definition answering :: "string \<Rightarrow> httpResponse \<Rightarrow> client" where
  "answering m httpResp =
     \<lparr>httpClient = (\<lambda>q. Inr httpResp), endpoint = ''http://example.com/graphql'', method' = m\<rparr>"

definition answer :: "int \<Rightarrow> string \<Rightarrow> bytes \<Rightarrow> httpResponse" where
  "answer code status body =
     \<lparr>StatusCode = code, Status = status, RespBody = \<lparr>delivered = body, readError = None\<rparr>\<rparr>"

definition emptyResponse :: "string Response" where
  "emptyResponse = \<lparr>Data = [], Extensions = [], Errors = []\<rparr>"

definition exampleQuery :: Request where
  "exampleQuery = \<lparr>Query = ''query Q { x }'', Variables = None, OpName = ''Q'', UploadFile = False\<rparr>"



section \<open>Properties of findFiles\<close>

lemma itoa_0: "itoa 0 = ''0''"
  by (simp add: itoa.simps digit_def)

text \<open>
  C7. The claim: every collected file is tagged with a dotted path that enters a record by
  the field's wire key, as in \<open>variables.input.files.0\<close>. The code takes the whole value of
  the \<open>json\<close> struct tag, options included: for a field declared
  \<open>Files []Upload `json:"files,omitempty"`\<close> inside a field tagged \<open>input\<close>, the first
  file is tagged \<open>variables.input.files,omitempty.0\<close>, which is not the path of the wire
  key \<open>files\<close>.
\<close>

theorem findFiles_key_keeps_tag_options:
  "findFiles ''variables''
     (VPtr (Some (VStruct [StructField ''Input'' ''input''
        (VStruct [StructField ''Files'' ''files,omitempty'' (VSeq [VUpload u])])])))
   = [\<lparr>mapKey = ''variables.input.files,omitempty.0'', upload = u\<rparr>]"
  by (simp add: itoa_0)

section \<open>Properties of the unmarshal helper\<close>

text \<open>
  C9. Decoding the JSON value \<open>null\<close> for a polymorphic field succeeds (the error is nil)
  and leaves the target as it was, whatever the type, the decoders and the target are.
\<close>

theorem unmarshal_helper_null: "unmarshal_helper t unmarshalNew v JNull = (v, None)"
  by (simp add: unmarshal_helper_def)

lemma isTypenameKey_exact: "isTypenameKey ''__typename''"
  by (simp add: isTypenameKey_def asciiUpper_def)

lemma typeNameMembers_empty:
  "\<forall>(k, x) \<in> set kvs. isTypenameKey k \<longrightarrow> x = JNull \<or> x = JString []
   \<Longrightarrow> typeNameMembers kvs [] bad = ([], bad)"
  by (induction kvs) auto

lemma typeNameMembers_skip:
  "\<forall>(k, x) \<in> set kvs. \<not> isTypenameKey k \<Longrightarrow> typeNameMembers kvs tn bad = (tn, bad)"
  by (induction kvs) auto

lemma typeNameMembers_append:
  "typeNameMembers (xs @ ys) tn bad =
     (case typeNameMembers xs tn bad of (tn', bad') \<Rightarrow> typeNameMembers ys tn' bad')"
  by (induction xs arbitrary: tn bad) (auto split: json.splits)

lemma typeNameMembers_unique:
  assumes "isTypenameKey k"
    and "\<forall>(k', x) \<in> set (pre @ post). \<not> isTypenameKey k'"
  shows "typeNameMembers (pre @ (k, JString tn) # post) [] False = (tn, False)"
  using assms by (simp add: typeNameMembers_append typeNameMembers_skip)

lemma find_implementation:
  assumes "distinct (map ImplGraphQLName is)" and "i \<in> set is"
  shows "find (\<lambda>j. ImplGraphQLName j = ImplGraphQLName i) is = Some i"
  using assms by (induction "is") auto

lemma find_no_implementation:
  "tn \<notin> ImplGraphQLName ` set is \<Longrightarrow> find (\<lambda>j. ImplGraphQLName j = tn) is = None"
  by (induction "is") auto


text \<open>
  C2, as the code has it. The wire value is a JSON object; no implementation has the
  empty GraphQL name and no two share a name (Go rejects a \<open>switch\<close> with a repeated
  case).
  \<^item> When every member for the discriminator (a key that is \<open>__typename\<close> up to the case of
    its letters) is \<open>null\<close> or the empty string, in particular when there is none, decoding
    fails with the missing-typename error and the target is unchanged.
  \<^item> When the object has exactly one discriminator member and its value is a string \<open>tn\<close>:
    if \<open>tn\<close> is not empty and names no implementation, decoding fails with the
    unexpected-type error for \<open>tn\<close> and the target is unchanged; if \<open>tn\<close> is the GraphQL name
    of the implementation \<open>i\<close>, the target becomes a new struct of \<open>i\<close>'s Go type, filled
    by decoding the whole wire value into it, and the error is that decoding's.
\<close>

theorem unmarshal_helper_object:
  assumes nonempty: "\<forall>i \<in> set (Implementations t). ImplGraphQLName i \<noteq> []"
    and dist: "distinct (map ImplGraphQLName (Implementations t))"
  shows
    "((\<forall>(k, x) \<in> set kvs. isTypenameKey k \<longrightarrow> x = JNull \<or> x = JString []) \<longrightarrow>
        unmarshal_helper t unmarshalNew v (JObject kvs) =
          (v, Some (ErrMissingTypename (GraphQLName t)))) \<and>
     (isTypenameKey k \<and> (\<forall>(k', x) \<in> set (pre @ post). \<not> isTypenameKey k') \<longrightarrow>
        (tn \<noteq> [] \<and> tn \<notin> ImplGraphQLName ` set (Implementations t) \<longrightarrow>
           unmarshal_helper t unmarshalNew v (JObject (pre @ (k, JString tn) # post)) =
             (v, Some (ErrUnexpectedType (GoName t) tn))) \<and>
        (\<forall>i \<in> set (Implementations t). ImplGraphQLName i = tn \<longrightarrow>
           unmarshal_helper t unmarshalNew v (JObject (pre @ (k, JString tn) # post)) =
             (Some (ImplGoName i,
                    fst (unmarshalNew (ImplGoName i) (JObject (pre @ (k, JString tn) # post)))),
              snd (unmarshalNew (ImplGoName i) (JObject (pre @ (k, JString tn) # post))))))"
proof (intro conjI impI ballI)
  assume "\<forall>(k, x) \<in> set kvs. isTypenameKey k \<longrightarrow> x = JNull \<or> x = JString []"
  then have "typeNameMembers kvs [] False = ([], False)"
    by (rule typeNameMembers_empty)
  moreover have "find (\<lambda>i. ImplGraphQLName i = []) (Implementations t) = None"
    using nonempty by (intro find_no_implementation) auto
  ultimately show "unmarshal_helper t unmarshalNew v (JObject kvs) =
      (v, Some (ErrMissingTypename (GraphQLName t)))"
    by (simp add: unmarshal_helper_def unmarshalTypeName_def)
next
  assume key: "isTypenameKey k \<and> (\<forall>(k', x) \<in> set (pre @ post). \<not> isTypenameKey k')"
    and tn: "tn \<noteq> [] \<and> tn \<notin> ImplGraphQLName ` set (Implementations t)"
  from key have "typeNameMembers (pre @ (k, JString tn) # post) [] False = (tn, False)"
    by (intro typeNameMembers_unique) auto
  moreover from tn have "find (\<lambda>i. ImplGraphQLName i = tn) (Implementations t) = None"
    by (intro find_no_implementation) auto
  ultimately show "unmarshal_helper t unmarshalNew v (JObject (pre @ (k, JString tn) # post)) =
      (v, Some (ErrUnexpectedType (GoName t) tn))"
    using tn by (simp add: unmarshal_helper_def unmarshalTypeName_def)
next
  fix i
  assume key: "isTypenameKey k \<and> (\<forall>(k', x) \<in> set (pre @ post). \<not> isTypenameKey k')"
    and i: "i \<in> set (Implementations t)" and tn: "ImplGraphQLName i = tn"
  from key have "typeNameMembers (pre @ (k, JString tn) # post) [] False = (tn, False)"
    by (intro typeNameMembers_unique) auto
  moreover from dist i tn have "find (\<lambda>j. ImplGraphQLName j = tn) (Implementations t) = Some i"
    using find_implementation by blast
  ultimately show "unmarshal_helper t unmarshalNew v (JObject (pre @ (k, JString tn) # post)) =
      (Some (ImplGoName i,
             fst (unmarshalNew (ImplGoName i) (JObject (pre @ (k, JString tn) # post)))),
       snd (unmarshalNew (ImplGoName i) (JObject (pre @ (k, JString tn) # post))))"
    by (simp add: unmarshal_helper_def unmarshalTypeName_def split: prod.splits)
qed

theorem unmarshal_helper_object_witness:
  "unmarshal_helper nodeType keepWire None (JObject [(''id'', JString ''1'')]) =
     (None, Some (ErrMissingTypename ''Node'')) \<and>
   unmarshal_helper nodeType keepWire None
       (JObject [(''__typename'', JString ''Robot''), (''id'', JString ''1'')]) =
     (None, Some (ErrUnexpectedType ''QueryNode'' ''Robot'')) \<and>
   unmarshal_helper nodeType keepWire None
       (JObject [(''__typename'', JString ''User''), (''id'', JString ''1''), (''name'', JString ''Ada'')]) =
     (Some (''QueryNodeUser'',
            JObject [(''__typename'', JString ''User''), (''id'', JString ''1''), (''name'', JString ''Ada'')]),
      None)"
proof -
  have ne: "\<forall>i \<in> set (Implementations nodeType). ImplGraphQLName i \<noteq> []"
    by (simp add: nodeType_def)
  have di: "distinct (map ImplGraphQLName (Implementations nodeType))"
    by (simp add: nodeType_def)
  have nk: "\<not> isTypenameKey ''id''" "\<not> isTypenameKey ''name''"
    by (simp_all add: isTypenameKey_def asciiUpper_def)
  note th = unmarshal_helper_object [OF ne di]
  have a: "unmarshal_helper nodeType keepWire None (JObject [(''id'', JString ''1'')]) =
     (None, Some (ErrMissingTypename ''Node''))"
    using th [of "[(''id'', JString ''1'')]" keepWire None "[]" "[]" "[]" "[]"] nk
    by (simp add: nodeType_def)
  have b: "unmarshal_helper nodeType keepWire None
       (JObject [(''__typename'', JString ''Robot''), (''id'', JString ''1'')]) =
     (None, Some (ErrUnexpectedType ''QueryNode'' ''Robot''))"
    using th [of "[]" keepWire None "''__typename''" "[]" "[(''id'', JString ''1'')]" "''Robot''"]
      nk isTypenameKey_exact
    by (simp add: nodeType_def)
  have c: "unmarshal_helper nodeType keepWire None
       (JObject [(''__typename'', JString ''User''), (''id'', JString ''1''), (''name'', JString ''Ada'')]) =
     (Some (''QueryNodeUser'',
            JObject [(''__typename'', JString ''User''), (''id'', JString ''1''), (''name'', JString ''Ada'')]),
      None)"
    using th [of "[]" keepWire None "''__typename''" "[]"
        "[(''id'', JString ''1''), (''name'', JString ''Ada'')]" "''User''"]
      nk isTypenameKey_exact
    by (simp add: nodeType_def keepWire_def)
  from a b c show ?thesis by simp
qed

text \<open>
  C2 as stated covers every wire value without a discriminator key. The JSON value
  \<open>null\<close> has none, and decoding it does not fail.
\<close>

theorem unmarshal_helper_null_counterexample:
  "objectMember JNull ''__typename'' = None \<and>
   snd (unmarshal_helper nodeType keepWire None JNull) \<noteq> Some (ErrMissingTypename (GraphQLName nodeType))"
  by (simp add: objectMember_def unmarshal_helper_def)

section \<open>Properties of the generated input type\<close>




section \<open>Properties of the transport client\<close>

subsection \<open>TrimSpace in front of a mutation\<close>











subsection \<open>GET and mutations\<close>



subsection \<open>The upload flag on a GET client\<close>

lemma createGetRequest_UploadFile:
  "createGetRequest lib c (req\<lparr>UploadFile := b\<rparr>) = createGetRequest lib c req"
  by (simp add: createGetRequest_def cong: sum.case_cong if_cong)

lemma createGetRequest_shape:
  assumes "createGetRequest lib c req = Inr q"
  shows "Method q = method' c \<and> ReqBody q = NoBody"
  using assms
  by (auto simp: createGetRequest_def http_NewRequest_def Let_def
      split: sum.splits if_splits option.splits prod.splits)

text \<open>
  C10. On a client that uses GET the flag \<open>UploadFile\<close> changes nothing: the call with the
  flag set has the outcome of the call with the flag cleared, and every request it hands
  to \<open>Do\<close> is a GET request without a body whose \<open>Content-Type\<close> is \<open>application/json\<close>.
\<close>

theorem MakeRequest_GET_ignores_UploadFile:
  assumes "method' c = ''GET''"
  shows "MakeRequest lib c h (req\<lparr>UploadFile := True\<rparr>) r =
           MakeRequest lib c h (req\<lparr>UploadFile := False\<rparr>) r \<and>
         (\<forall>q \<in> set (sent (MakeRequest lib c h (req\<lparr>UploadFile := True\<rparr>) r)).
            Method q = ''GET'' \<and> ReqBody q = NoBody \<and>
            Header q ''Content-Type'' = Some ''application/json'')"
proof -
  have b: "buildRequest lib c h (req\<lparr>UploadFile := u\<rparr>) =
      (case createGetRequest lib c req of
         Inl e \<Rightarrow> Inl e
       | Inr q \<Rightarrow> Inr (Header_Set q ''Content-Type'' ''application/json''))" for u
    using assms by (simp add: buildRequest_def createGetRequest_UploadFile split: sum.splits)
  have eq: "MakeRequest lib c h (req\<lparr>UploadFile := True\<rparr>) r =
      MakeRequest lib c h (req\<lparr>UploadFile := False\<rparr>) r"
    by (simp add: MakeRequest_def b)
  have "\<forall>q \<in> set (sent (MakeRequest lib c h (req\<lparr>UploadFile := True\<rparr>) r)).
          Method q = ''GET'' \<and> ReqBody q = NoBody \<and>
          Header q ''Content-Type'' = Some ''application/json''"
  proof (cases "createGetRequest lib c req")
    case (Inl e)
    then show ?thesis by (simp add: MakeRequest_def b)
  next
    case (Inr q0)
    from createGetRequest_shape [OF Inr] assms
    have q0: "Method q0 = ''GET''" "ReqBody q0 = NoBody" by simp_all
    have "sent (MakeRequest lib c h (req\<lparr>UploadFile := True\<rparr>) r) =
        [Header_Set q0 ''Content-Type'' ''application/json'']"
      by (simp add: MakeRequest_def b Inr Let_def split: sum.splits prod.splits option.splits)
    then show ?thesis using q0 by (simp add: Header_Set_def)
  qed
  with eq show ?thesis by blast
qed

theorem MakeRequest_GET_ignores_UploadFile_witness:
  "method' (answering ''GET'' (answer 200 ''200 OK'' ''data'')) = ''GET'' \<and>
   MakeRequest exampleLib (answering ''GET'' (answer 200 ''200 OK'' ''data'')) []
       (exampleQuery\<lparr>UploadFile := True\<rparr>) emptyResponse =
     MakeRequest exampleLib (answering ''GET'' (answer 200 ''200 OK'' ''data'')) []
       (exampleQuery\<lparr>UploadFile := False\<rparr>) emptyResponse \<and>
   sent (MakeRequest exampleLib (answering ''GET'' (answer 200 ''200 OK'' ''data'')) []
       (exampleQuery\<lparr>UploadFile := True\<rparr>) emptyResponse) =
     [\<lparr>Method = ''GET'',
       URL = ''http://example.com/graphql?operationName=Q&query=query Q { x }&'',
       Header = [''Content-Type'' \<mapsto> ''application/json''], ReqBody = NoBody\<rparr>]"
proof -
  let ?c = "answering ''GET'' (answer 200 ''200 OK'' ''data'')"
  have m: "method' ?c = ''GET''" by (simp add: answering_def)
  have s: "sent (MakeRequest exampleLib ?c [] (exampleQuery\<lparr>UploadFile := True\<rparr>) emptyResponse) =
     [\<lparr>Method = ''GET'',
       URL = ''http://example.com/graphql?operationName=Q&query=query Q { x }&'',
       Header = [''Content-Type'' \<mapsto> ''application/json''], ReqBody = NoBody\<rparr>]"
    by (simp add: MakeRequest_def buildRequest_def createGetRequest_def exampleLib_def
        answering_def answer_def exampleQuery_def emptyResponse_def http_NewRequest_def
        Header_Set_def Values_Set_def HasPrefix_def TrimSpace_def trimRunes.simps spaceWidth_def
        unicodeSpaces_def)
  from MakeRequest_GET_ignores_UploadFile [OF m, of exampleLib "[]" exampleQuery emptyResponse] m s
  show ?thesis by simp
qed

subsection \<open>The status of the response\<close>

lemma build_exampleQuery_post:
  "buildRequest exampleLib (answering ''POST'' httpResp) [] exampleQuery =
     Inr \<lparr>Method = ''POST'', URL = ''http://example.com/graphql'',
          Header = [''Content-Type'' \<mapsto> ''application/json''],
          ReqBody = BytesBody ''{query: query Q { x }}''\<rparr>"
  by (simp add: buildRequest_def createPostRequest_def exampleLib_def answering_def
      exampleQuery_def http_NewRequest_def Header_Set_def)

text \<open>
  C4, as the code has it. Once the request is built and \<open>Do\<close> has answered: a status other
  than 200 makes the call fail with the error that carries the status line and the body
  read in full, or the placeholder \<open><unreadable: e>\<close> when reading the body fails with
  \<open>e\<close>; the response object is untouched. With status 200 the call does not fail with that
  error.
\<close>

theorem MakeRequest_status:
  assumes "buildRequest lib c h req = Inr q"
    and "httpClient c q = Inr httpResp"
  shows "(StatusCode httpResp \<noteq> 200 \<longrightarrow>
            MakeRequest lib c h req r =
              \<lparr>err = Some (ErrReturned (Status httpResp)
                      (case readError (RespBody httpResp) of
                         None \<Rightarrow> delivered (RespBody httpResp)
                       | Some e \<Rightarrow> ''<unreadable: '' @ e @ ''>'')),
               resp = r, sent = [q]\<rparr>) \<and>
         (StatusCode httpResp = 200 \<longrightarrow>
            (\<forall>s b. err (MakeRequest lib c h req r) \<noteq> Some (ErrReturned s b)))"
  using assms by (auto simp: MakeRequest_def split: prod.splits option.splits)

theorem MakeRequest_status_witness:
  "MakeRequest exampleLib
       (answering ''POST''
          \<lparr>StatusCode = 404, Status = ''404 Not Found'',
           RespBody = \<lparr>delivered = ''no such page'', readError = None\<rparr>\<rparr>)
       [] exampleQuery emptyResponse =
     \<lparr>err = Some (ErrReturned ''404 Not Found'' ''no such page''), resp = emptyResponse,
      sent = [\<lparr>Method = ''POST'', URL = ''http://example.com/graphql'',
               Header = [''Content-Type'' \<mapsto> ''application/json''],
               ReqBody = BytesBody ''{query: query Q { x }}''\<rparr>]\<rparr> \<and>
   MakeRequest exampleLib
       (answering ''POST''
          \<lparr>StatusCode = 502, Status = ''502 Bad Gateway'',
           RespBody = \<lparr>delivered = ''partial'', readError = Some ''unexpected EOF''\<rparr>\<rparr>)
       [] exampleQuery emptyResponse =
     \<lparr>err = Some (ErrReturned ''502 Bad Gateway'' ''<unreadable: unexpected EOF>''),
      resp = emptyResponse,
      sent = [\<lparr>Method = ''POST'', URL = ''http://example.com/graphql'',
               Header = [''Content-Type'' \<mapsto> ''application/json''],
               ReqBody = BytesBody ''{query: query Q { x }}''\<rparr>]\<rparr> \<and>
   err (MakeRequest exampleLib (answering ''POST'' (answer 200 ''200 OK'' ''data'')) [] exampleQuery
          emptyResponse)
     \<noteq> Some (ErrReturned ''200 OK'' ''data'')"
proof -
  let ?q = "\<lparr>Method = ''POST'', URL = ''http://example.com/graphql'',
               Header = [''Content-Type'' \<mapsto> ''application/json''],
               ReqBody = BytesBody ''{query: query Q { x }}''\<rparr>"
  let ?a = "\<lparr>StatusCode = 404, Status = ''404 Not Found'',
           RespBody = \<lparr>delivered = ''no such page'', readError = None\<rparr>\<rparr>"
  let ?b = "\<lparr>StatusCode = 502, Status = ''502 Bad Gateway'',
           RespBody = \<lparr>delivered = ''partial'', readError = Some ''unexpected EOF''\<rparr>\<rparr>"
  let ?c = "answer 200 ''200 OK'' ''data''"
  have d: "httpClient (answering ''POST'' x) ?q = Inr x" for x
    by (simp add: answering_def)
  have a: "MakeRequest exampleLib (answering ''POST'' ?a) [] exampleQuery emptyResponse =
     \<lparr>err = Some (ErrReturned ''404 Not Found'' ''no such page''), resp = emptyResponse,
      sent = [?q]\<rparr>"
    using MakeRequest_status [OF build_exampleQuery_post d, of ?a emptyResponse] by simp
  have b: "MakeRequest exampleLib (answering ''POST'' ?b) [] exampleQuery emptyResponse =
     \<lparr>err = Some (ErrReturned ''502 Bad Gateway'' ''<unreadable: unexpected EOF>''),
      resp = emptyResponse, sent = [?q]\<rparr>"
    using MakeRequest_status [OF build_exampleQuery_post d, of ?b emptyResponse] by simp
  have c: "err (MakeRequest exampleLib (answering ''POST'' ?c) [] exampleQuery emptyResponse)
     \<noteq> Some (ErrReturned ''200 OK'' ''data'')"
    using MakeRequest_status [OF build_exampleQuery_post d, of ?c emptyResponse]
    by (simp add: answer_def)
  from a b c show ?thesis by simp
qed

text \<open>
  C4 as stated promises that no 2xx status fails with the transport error. The code
  compares with 200 only: 201 is a 2xx status and fails with it.
\<close>

theorem MakeRequest_status_201_counterexample:
  "(200::int) \<le> 201 \<and> (201::int) < 300 \<and>
   err (MakeRequest exampleLib (answering ''POST'' (answer 201 ''201 Created'' ''created'')) []
          exampleQuery emptyResponse)
     = Some (ErrReturned ''201 Created'' ''created'')"
  by (simp add: MakeRequest_def build_exampleQuery_post)
     (simp add: answering_def answer_def)

subsection \<open>GraphQL errors in the response\<close>

text \<open>
  C3, as the code has it. Once the request is built and \<open>Do\<close> has answered with status 200,
  if the body decodes without error into a response whose \<open>Errors\<close> is not empty, the call
  returns that list as its error, and the response object is the decoded one (its data
  populated), whether or not data came with the errors.
\<close>

theorem MakeRequest_errors_on_200:
  assumes "buildRequest lib c h req = Inr q"
    and "httpClient c q = Inr httpResp"
    and "StatusCode httpResp = 200"
    and "Decode lib (RespBody httpResp) r = (r', None)"
    and "Errors r' \<noteq> []"
  shows "MakeRequest lib c h req r = \<lparr>err = Some (ErrGraphQL (Errors r')), resp = r', sent = [q]\<rparr>"
  using assms by (simp add: MakeRequest_def)

theorem MakeRequest_errors_on_200_witness:
  "MakeRequest exampleLib (answering ''POST'' (answer 200 ''200 OK'' ''data+errors'')) [] exampleQuery
       emptyResponse =
     \<lparr>err = Some (ErrGraphQL [GqlError ''boom'']),
      resp = \<lparr>Data = ''data'', Extensions = [], Errors = [GqlError ''boom'']\<rparr>,
      sent = [\<lparr>Method = ''POST'', URL = ''http://example.com/graphql'',
               Header = [''Content-Type'' \<mapsto> ''application/json''],
               ReqBody = BytesBody ''{query: query Q { x }}''\<rparr>]\<rparr>"
proof -
  let ?hr = "answer 200 ''200 OK'' ''data+errors''"
  let ?c = "answering ''POST'' ?hr"
  let ?q = "\<lparr>Method = ''POST'', URL = ''http://example.com/graphql'',
               Header = [''Content-Type'' \<mapsto> ''application/json''],
               ReqBody = BytesBody ''{query: query Q { x }}''\<rparr>"
  let ?r' = "\<lparr>Data = ''data'', Extensions = [], Errors = [GqlError ''boom'']\<rparr>"
  have b: "buildRequest exampleLib ?c [] exampleQuery = Inr ?q"
    by (rule build_exampleQuery_post)
  have d: "httpClient ?c ?q = Inr ?hr" by (simp add: answering_def)
  have s: "StatusCode ?hr = 200" by (simp add: answer_def)
  have e: "Decode exampleLib (RespBody ?hr) emptyResponse = (?r', None)"
    by (simp add: exampleLib_def emptyResponse_def answer_def)
  have n: "Errors ?r' \<noteq> []" by simp
  show ?thesis using MakeRequest_errors_on_200 [OF b d s e n] by simp
qed

text \<open>
  C3 as stated covers every 2xx status. With status 201 and a body that would decode to
  data and one error, the call returns the status error instead, and the response object
  is not populated.
\<close>

theorem MakeRequest_errors_on_201_counterexample:
  "Decode exampleLib (RespBody (answer 201 ''201 Created'' ''data+errors'')) emptyResponse =
     (\<lparr>Data = ''data'', Extensions = [], Errors = [GqlError ''boom'']\<rparr>, None) \<and>
   err (MakeRequest exampleLib (answering ''POST'' (answer 201 ''201 Created'' ''data+errors'')) []
          exampleQuery emptyResponse)
     = Some (ErrReturned ''201 Created'' ''data+errors'') \<and>
   resp (MakeRequest exampleLib (answering ''POST'' (answer 201 ''201 Created'' ''data+errors'')) []
          exampleQuery emptyResponse)
     = emptyResponse"
  by (simp add: MakeRequest_def build_exampleQuery_post)
     (simp add: exampleLib_def answering_def emptyResponse_def answer_def)


section \<open>Properties of the file upload packer\<close>

subsection \<open>Reading and re-buffering\<close>



subsection \<open>The grouping on names and contents\<close>









subsection \<open>The loops follow the grouping\<close>








lemma filePart_cong:
  "contentOf h' f0 = contentOf h f0 \<Longrightarrow> filePart lib h' i f0 = filePart lib h i f0"
  by (simp add: filePart_def)





subsection \<open>Files with the same name and content\<close>




subsection \<open>Requests without files\<close>

text \<open>
  C8. The claim: for every upload request whose variables hold no file, packing succeeds.
  A request without variables (\<open>Variables\<close> is nil) holds none, and packing it panics in
  \<open>findFiles\<close> once the HTTP request has been created: for every client, store and
  library, and in the concrete call of \<open>MakeRequest\<close> below, which sends nothing.
\<close>

theorem createUploadFileRequest_nil_Variables:
  "createUploadFileRequest lib c h (req\<lparr>Variables := None\<rparr>) =
     (case NewRequest_error lib ''POST'' (endpoint c) of
        Some e \<Rightarrow> Inl (ErrCreatingRequest e)
      | None \<Rightarrow> Inl (Panic ''reflect: call of reflect.Value.Type on zero Value'')) \<and>
   MakeRequest exampleLib (answering ''POST'' (answer 200 ''200 OK'' ''data'')) []
       \<lparr>Query = ''query Q { x }'', Variables = None, OpName = ''Q'', UploadFile = True\<rparr>
       emptyResponse =
     \<lparr>err = Some (Panic ''reflect: call of reflect.Value.Type on zero Value''),
      resp = emptyResponse, sent = []\<rparr>"
  by (simp add: createUploadFileRequest_def http_NewRequest_def findFiles_ValueOf_def
      MakeRequest_def buildRequest_def exampleLib_def answering_def split: option.splits)

text \<open>
  For variables that are not nil and hold no file, packing succeeds: the body has the
  \<open>operations\<close> field and a \<open>map\<close> field whose value is the empty string.
\<close>

lemma createUploadFileRequest_no_files:
  assumes "NewRequest_error lib ''POST'' (endpoint c) = None"
    and "Variables req = Some v" and "findFiles ''variables'' v = []"
  shows "createUploadFileRequest lib c h req =
     Inr (\<lparr>Method = ''POST'', URL = endpoint c,
           Header = [''Content-Type'' \<mapsto> ''multipart/form-data; boundary='' @ boundary lib],
           ReqBody = MultipartBody
             [formField ''operations'' (case json_Marshal_Request lib req of Inl e \<Rightarrow> [] | Inr b \<Rightarrow> b),
              formField ''map'' []]\<rparr>, h)"
  using assms
  by (simp add: createUploadFileRequest_def http_NewRequest_def findFiles_ValueOf_def
      mapData_def Header_Set_def)

end
